theory Spec2Isabelle
  imports Complex_Main
begin

section \<open>The chat session of \<open>Chat.tsx\<close>\<close>

text \<open>
  The component \<open>Chat\<close> keeps its session in React state cells and changes them from
  event handlers. The model below is a shallow embedding of those handlers: the state
  cells are the fields of one record, a handler is a function from the state before the
  event to the state after it, and what a handler asks of the browser (an alert, a file
  download, a network request, a timer) is appended to a log kept in the state.
\<close>

subsection \<open>Strings and values of the runtime\<close>

text \<open>
  A JavaScript string is a sequence of UTF-16 code units. The fixed texts of the
  component contain characters outside ASCII, so a string is a list of code units;
  \<open>asc\<close> embeds an ASCII literal.
\<close>

type_synonym jsstring = "nat list"

definition asc :: "string \<Rightarrow> jsstring" where
  "asc cs = map of_char cs"

text \<open>
  Values as they come out of \<open>response.json()\<close> or of an optional chain. \<open>JNum q\<close> is a
  finite number of value \<open>q\<close>; \<open>JNonFinite\<close> is an infinity, which \<open>JSON.parse\<close> gives
  for a literal beyond the range of a double. The properties of an object are an
  association list with distinct keys.
\<close>

datatype jsval =
    JUndefined
  | JNull
  | JBool bool
  | JNum rat
  | JNonFinite
  | JStr jsstring
  | JArr "jsval list"
  | JObj "(jsstring \<times> jsval) list"

subsection \<open>Data model\<close>

datatype role = User | Assistant | System

text \<open>
  \<open>interface Message\<close>. The optional fields are options, \<open>None\<close> for a field that is
  not there. \<open>content\<close> is declared a string, but the types are erased when the program
  runs and the completion handler stores what the payload holds, so it is a value.
\<close>

record message =
  role :: role
  content :: jsval
  timestamp :: "nat option"
  isCommand :: "bool option"
  id :: "jsstring option"
  isPinned :: "bool option"

text \<open>What a handler asks of the browser.\<close>

datatype effect =
    Alert jsstring
  | Download nat "message list"
  | NetworkRequest jsstring jsstring
  | SetTimeout nat
  | ConsoleError
  | RecognitionStart
  | RecognitionStop

text \<open>
  The state cells of the component (\<open>useState\<close>), \<open>recognitionRef\<close> (whether the ref
  holds a recogniser), and the log of effects. \<open>input\<close> is \<open>None\<close> when the buffer holds
  \<open>undefined\<close>, which \<open>setInput\<close> receives from an array read out of range.
\<close>

record state =
  messages :: "message list"
  input :: "jsstring option"
  isLoading :: bool
  inputHistory :: "jsstring list"
  historyIndex :: int
  showTemplates :: bool
  showExport :: bool
  isListening :: bool
  isVoiceSupported :: bool
  recognitionRef :: bool
  showPinnedPanel :: bool
  pinnedMessages :: "message list"
  theme :: jsstring
  effects :: "effect list"

subsection \<open>Pinning\<close>

text \<open>
  JavaScript truth of the two optional fields that \<open>togglePinMessage\<close> tests:
  \<open>!message.id\<close> holds for a missing id and for the empty string, \<open>message.isPinned\<close>
  holds only for \<open>true\<close>.
\<close>

definition no_id :: "message \<Rightarrow> bool" where
  "no_id m = (case id m of None \<Rightarrow> True | Some i \<Rightarrow> i = [])"

definition pinned_flag :: "message \<Rightarrow> bool" where
  "pinned_flag m = (isPinned m = Some True)"

text \<open>
  \<open>togglePinMessage\<close> (lines 375-392). Both setters are given updater functions, so
  they act on the state at the time of the call.
\<close>

definition togglePinMessage :: "message \<Rightarrow> state \<Rightarrow> state" where
  "togglePinMessage msg s =
     (if no_id msg then s
      else if pinned_flag msg then
        s\<lparr>pinnedMessages := filter (\<lambda>m. id m \<noteq> id msg) (pinnedMessages s),
          messages := map (\<lambda>m. if id m = id msg then m\<lparr>isPinned := Some False\<rparr> else m)
                          (messages s)\<rparr>
      else
        s\<lparr>pinnedMessages := pinnedMessages s @ [msg\<lparr>isPinned := Some True\<rparr>],
          messages := map (\<lambda>m. if id m = id msg then m\<lparr>isPinned := Some True\<rparr> else m)
                          (messages s)\<rparr>)"

text \<open>A sequence of Toggle Pin calls, first call first.\<close>

fun togglePins :: "message list \<Rightarrow> state \<Rightarrow> state" where
  "togglePins [] s = s"
| "togglePins (m # ms) s = togglePins ms (togglePinMessage m s)"

text \<open>
  The invariant of the data model: the flag of a message of the main list says whether
  the pinned list holds a message of the same id.
\<close>

definition pin_consistent :: "state \<Rightarrow> bool" where
  "pin_consistent s =
     list_all (\<lambda>m. pinned_flag m = list_ex (\<lambda>p. id p = id m) (pinnedMessages s))
              (messages s)"

subsection \<open>String operations of the platform\<close>

text \<open>
  \<open>String.prototype.trim\<close> removes the white space and line terminators of ECMAScript
  from both ends: tab, line feed, vertical tab, form feed, carriage return, space,
  no-break space, the space separators of Unicode, the line and paragraph separators
  and the byte order mark.
\<close>

definition isWhiteSpace :: "nat \<Rightarrow> bool" where
  "isWhiteSpace c =
     (c = 9 \<or> c = 10 \<or> c = 11 \<or> c = 12 \<or> c = 13 \<or> c = 32 \<or> c = 0xA0 \<or> c = 0x1680 \<or>
      (0x2000 \<le> c \<and> c \<le> 0x200A) \<or> c = 0x2028 \<or> c = 0x2029 \<or> c = 0x202F \<or>
      c = 0x205F \<or> c = 0x3000 \<or> c = 0xFEFF)"

definition trim :: "jsstring \<Rightarrow> jsstring" where
  "trim s = rev (dropWhile isWhiteSpace (rev (dropWhile isWhiteSpace s)))"

text \<open>\<open>s.startsWith(p)\<close>.\<close>

definition startsWith :: "jsstring \<Rightarrow> jsstring \<Rightarrow> bool" where
  "startsWith s p = (take (length p) s = p)"

text \<open>
  \<open>cmd.replace('/', '')\<close>: a string pattern is replaced once, at its first occurrence;
  the pattern is the one code unit 47.
\<close>

definition replaceSlash :: "jsstring \<Rightarrow> jsstring" where
  "replaceSlash cmd = remove1 47 cmd"

text \<open>
  \<open>toLowerCase\<close> follows the case tables of Unicode, which are not part of this
  development: the handlers take it from the environment. On a string of ASCII code
  units it is \<open>asciiLowerCase\<close>.
\<close>

definition asciiLowerCase :: "jsstring \<Rightarrow> jsstring" where
  "asciiLowerCase s = map (\<lambda>c. if 65 \<le> c \<and> c \<le> 90 then c + 32 else c) s"

text \<open>A number in a template literal: a count is printed in decimal.\<close>

fun decimal :: "nat \<Rightarrow> jsstring" where
  "decimal n = (if n < 10 then [48 + n] else decimal (n div 10) @ [48 + n mod 10])"

declare decimal.simps [simp del]

text \<open>\<open>xs.join(sep)\<close> on an array of strings.\<close>

fun join :: "jsstring \<Rightarrow> jsstring list \<Rightarrow> jsstring" where
  "join sep [] = []"
| "join sep [x] = x"
| "join sep (x # y # ys) = x @ sep @ join sep (y # ys)"

text \<open>\<open>xs[i]\<close> on an array: \<open>undefined\<close> out of range.\<close>

definition js_index :: "'a list \<Rightarrow> int \<Rightarrow> 'a option" where
  "js_index xs i = (if 0 \<le> i \<and> i < int (length xs) then Some (xs ! nat i) else None)"

text \<open>\<open>!x\<close> for a string that may be \<open>undefined\<close>.\<close>

definition falsy_string :: "jsstring option \<Rightarrow> bool" where
  "falsy_string x = (case x of None \<Rightarrow> True | Some t \<Rightarrow> t = [])"

subsection \<open>What the environment supplies to a handler\<close>

text \<open>
  One record for one run of a handler: the platform's \<open>toLowerCase\<close> and
  \<open>toLocaleString\<close>, the clock (\<open>new Date()\<close>, \<open>Date.now()\<close>), the result of
  \<open>generateMessageId()\<close>, which is built from the clock and \<open>Math.random()\<close>, and the
  build-time value \<open>import.meta.env.VITE_GEMINI_API_KEY\<close>.
\<close>

record env =
  toLowerCase :: "jsstring \<Rightarrow> jsstring"
  toLocaleString :: "nat \<Rightarrow> jsstring"
  now :: nat
  generateMessageId :: jsstring
  apiKey :: "jsstring option"

subsection \<open>Fixed texts\<close>

definition helpText :: jsstring where
  "helpText =
     asc ''Available Commands:'' @ [10] @ asc ''        '' @
     [10, 0xD83D, 0xDCCB] @ asc '' **/help** - Show this help message'' @
     [10, 0xD83D, 0xDDD1, 0xFE0F] @
     asc '' **/clear** - Clear all messages'' @ [10, 0x2139, 0xFE0F] @
     asc '' **/about** - About this chat application'' @
     [10, 0xD83C, 0xDFA8] @
     asc '' **/theme** - Toggle between light/dark theme'' @
     [10, 0xD83D, 0xDCBE] @ asc '' **/save** - Export current chat'' @
     [10, 0xD83D, 0xDCCA] @ asc '' **/stats** - Show chat statistics'' @
     [10, 0xD83D, 0xDD04] @
     asc '' **/reset** - Reset chat and start fresh'' @
     [10, 0xD83D, 0xDCDD] @ asc '' **/templates** - Show prompt templates'' @
     [10, 0xD83C, 0xDFA4] @
     asc '' **/voice** - Toggle voice input (if supported)'' @
     [10, 0xD83D, 0xDCCC] @
     asc '' **/pinned** - Show pinned messages panel'' @ [10, 10] @
     asc ''Type any command to execute it!''"

definition clearText :: jsstring where
  "clearText =
     [0xD83D, 0xDDD1, 0xFE0F] @ asc '' Chat cleared successfully!''"

definition aboutText :: jsstring where
  "aboutText =
     [0xD83E, 0xDD16] @ asc '' **AI Chat Assistant**'' @ [10] @
     asc ''        '' @ [10] @
     asc ''Built with React + TypeScript + Tailwind CSS'' @ [10] @
     asc ''Powered by Google Gemini AI API'' @ [10, 10] @ asc ''Features:'' @
     [10, 0x2022] @ asc '' '' @ [0xD83D, 0xDCAC] @
     asc '' Real-time chat with AI'' @ [10, 0x2022] @ asc '' '' @
     [0xD83C, 0xDFA4] @ asc '' Voice input support'' @ [10, 0x2022] @
     asc '' '' @ [0xD83D, 0xDCDD] @ asc '' Prompt templates'' @
     [10, 0x2022] @ asc '' '' @ [0xD83D, 0xDCE4] @ asc '' Chat export'' @
     [10, 0x2022] @ asc '' '' @ [0xD83C, 0xDFA8] @
     asc '' Dark/light theme'' @ [10, 0x2022] @ asc '' '' @
     [0x2328, 0xFE0F] @ asc '' Slash commands'' @ [10, 0x2022] @ asc '' '' @
     [0xD83D, 0xDCCC] @ asc '' Pinned messages'' @ [10, 0x2022] @ asc '' '' @
     [0xD83D, 0xDCF1] @ asc '' Responsive design'' @ [10, 10] @
     asc ''Version: 1.0.0'' @ [10] @ asc ''Made with '' @ [0x2764, 0xFE0F] @
     asc '' for better AI interactions''"

definition saveText :: jsstring where
  "saveText =
     [0xD83D, 0xDCBE] @ asc '' Chat exported successfully!''"

definition resetText :: jsstring where
  "resetText =
     [0xD83D, 0xDD04] @
     asc '' Chat reset successfully! Ready for a fresh conversation.''"

definition voiceUnsupportedText :: jsstring where
  "voiceUnsupportedText =
     [0xD83C, 0xDFA4] @
     asc '' Voice input is not supported in your browser. Please use '' @
     asc ''Chrome, Edge, or Safari.''"

definition voiceStoppedText :: jsstring where
  "voiceStoppedText =
     [0xD83C, 0xDFA4] @ asc '' Voice input stopped.''"

definition voiceStartedText :: jsstring where
  "voiceStartedText =
     [0xD83C, 0xDFA4] @ asc '' Voice input started. Speak now!''"

definition exportAlertText :: jsstring where
  "exportAlertText =
     asc ''No messages to export!''"

definition speechAlertText :: jsstring where
  "speechAlertText =
     asc ''Speech recognition is not supported in your browser. Please '' @
     asc ''use Chrome, Edge, or Safari.''"

definition keyMissingText :: jsstring where
  "keyMissingText =
     asc ''API key not found. Set VITE_GEMINI_API_KEY in your .env '' @
     asc ''file.''"

definition apologyText :: jsstring where
  "apologyText =
     asc ''Sorry, I encountered an error. Please try again.''"

definition noResponseText :: jsstring where
  "noResponseText =
     asc ''No response from model.''"

definition unknownCommandText :: "jsstring \<Rightarrow> jsstring" where
  "unknownCommandText command =
     [0x274C] @ asc '' Unknown command: '' @ command @ [10] @
     asc ''Type /help to see available commands.''"

definition themeText :: "jsstring \<Rightarrow> jsstring" where
  "themeText t =
     [0xD83C, 0xDFA8] @ asc '' Theme switched to '' @
     (if t = asc ''light'' then asc ''dark'' else asc ''light'') @ asc '' mode!''"

definition pinnedText :: "bool \<Rightarrow> jsstring" where
  "pinnedText shown =
     [0xD83D, 0xDCCC] @ asc '' Pinned messages panel '' @
     (if shown then asc ''hidden'' else asc ''shown'') @ asc ''!''"

record promptTemplate =
  name :: jsstring
  prompt :: jsstring
  category :: jsstring

definition promptTemplates :: "promptTemplate list" where
  "promptTemplates =
     [\<lparr>name = asc ''Code Review'',
       prompt =
         asc ''Please review this code and provide feedback on best '' @
         asc ''practices, potential bugs, and improvements:'',
       category = asc ''Development''\<rparr>,
      \<lparr>name = asc ''Writing Assistant'',
       prompt =
         asc ''Help me write a professional email about:'',
       category = asc ''Writing''\<rparr>,
      \<lparr>name = asc ''Problem Solver'',
       prompt =
         asc ''I'' @ [39] @
         asc ''m facing this problem: [describe your problem]. Can you '' @
         asc ''help me brainstorm solutions?'',
       category = asc ''General''\<rparr>,
      \<lparr>name = asc ''Learning Helper'',
       prompt =
         asc ''Explain [topic] in simple terms with examples:'',
       category = asc ''Education''\<rparr>,
      \<lparr>name = asc ''Creative Writing'',
       prompt =
         asc ''Write a short story about:'',
       category = asc ''Creative''\<rparr>,
      \<lparr>name = asc ''Data Analysis'',
       prompt =
         asc ''Analyze this data and provide insights:'',
       category = asc ''Analytics''\<rparr>]"

definition templatesText :: jsstring where
  "templatesText =
     [0xD83D, 0xDCDD] @ asc '' **Available Prompt Templates**'' @ [10] @
     asc ''        '' @ [10] @
     join [10, 10]
       (map (\<lambda>template. asc ''**'' @ name template @ asc ''** ('' @ category template @
                        asc '')'' @ [10] @ asc ''  '' @ prompt template)
            promptTemplates) @
     [10, 10] @ asc ''Click the '' @ [0xD83D, 0xDCDD] @
     asc '' button in the header to use these templates!''"

subsection \<open>Messages as the handlers build them\<close>

definition systemMessage :: "env \<Rightarrow> jsstring \<Rightarrow> message" where
  "systemMessage e text =
     \<lparr>role = System, content = JStr text, timestamp = Some (now e),
      isCommand = Some True, id = Some (generateMessageId e), isPinned = None\<rparr>"

definition assistantMessage :: "env \<Rightarrow> jsval \<Rightarrow> message" where
  "assistantMessage e c =
     \<lparr>role = Assistant, content = c, timestamp = Some (now e),
      isCommand = None, id = Some (generateMessageId e), isPinned = None\<rparr>"

definition userMessage :: "env \<Rightarrow> jsstring \<Rightarrow> message" where
  "userMessage e text =
     \<lparr>role = User, content = JStr text, timestamp = Some (now e),
      isCommand = None, id = Some (generateMessageId e), isPinned = None\<rparr>"

text \<open>\<open>setMessages(prev => [...prev, m])\<close>.\<close>

definition appendMessage :: "message \<Rightarrow> state \<Rightarrow> state" where
  "appendMessage m s = s\<lparr>messages := messages s @ [m]\<rparr>"

definition logEffect :: "effect \<Rightarrow> state \<Rightarrow> state" where
  "logEffect x s = s\<lparr>effects := effects s @ [x]\<rparr>"

subsection \<open>Export and voice input\<close>

text \<open>
  \<open>exportChat\<close> (lines 488-510). The text of the file is built from the messages with
  the platform's date formats; the download is logged with the date that names the
  file and the messages it was built from.
\<close>

definition exportChat :: "env \<Rightarrow> state \<Rightarrow> state" where
  "exportChat e s =
     (if length (messages s) = 0 then logEffect (Alert exportAlertText) s
      else (logEffect (Download (now e) (messages s)) s)\<lparr>showExport := False\<rparr>)"

text \<open>
  \<open>startListening\<close> and \<open>stopListening\<close> (lines 421-454); the calls of the recogniser
  are logged and taken to return.
\<close>

definition startListening :: "state \<Rightarrow> state" where
  "startListening s =
     (if \<not> isVoiceSupported s \<or> \<not> recognitionRef s then logEffect (Alert speechAlertText) s
      else logEffect RecognitionStart (s\<lparr>isListening := True\<rparr>))"

definition stopListening :: "state \<Rightarrow> state" where
  "stopListening s =
     (if recognitionRef s then (logEffect RecognitionStop s)\<lparr>isListening := False\<rparr> else s)"

definition toggleTheme :: "state \<Rightarrow> state" where
  "toggleTheme s = s\<lparr>theme := (if theme s = asc ''light'' then asc ''dark'' else asc ''light'')\<rparr>"

subsection \<open>The command registry\<close>

datatype command = Help | Clear | About | Theme | Save | Stats | Reset | Templates | Voice | Pinned

definition statsText :: "env \<Rightarrow> state \<Rightarrow> jsstring" where
  "statsText e s =
     [0xD83D, 0xDCCA] @ asc '' **Chat Statistics**'' @ [10] @
     asc ''        '' @ [10] @ asc ''Total Messages: '' @ decimal (length (messages s)) @
     [10] @ asc ''User Messages: '' @
     decimal (length (filter (\<lambda>m. role m = User) (messages s))) @
     [10] @ asc ''AI Responses: '' @
     decimal (length (filter (\<lambda>m. role m = Assistant) (messages s))) @
     [10] @ asc ''System Messages: '' @
     decimal (length (filter (\<lambda>m. role m = System) (messages s))) @
     [10] @ asc ''Pinned Messages: '' @ decimal (length (pinnedMessages s)) @
     [10, 10] @ asc ''Session started: '' @
     (case messages s of
        [] \<Rightarrow> asc ''N/A''
      | m # _ \<Rightarrow> toLocaleString e (case timestamp m of Some t \<Rightarrow> t | None \<Rightarrow> now e))"

text \<open>
  The \<open>action\<close> of each entry of \<open>slashCommands\<close> (lines 75-290). A value read from
  the closure (\<open>messages\<close>, \<open>theme\<close>, \<open>showPinnedPanel\<close>) is the one of the state the
  handler was called in, which is the argument \<open>s\<close>.
\<close>

fun slashCommands_action :: "command \<Rightarrow> env \<Rightarrow> state \<Rightarrow> state" where
  "slashCommands_action Help e s = appendMessage (systemMessage e helpText) s"
| "slashCommands_action Clear e s =
     appendMessage (systemMessage e clearText) (s\<lparr>messages := []\<rparr>)"
| "slashCommands_action About e s = appendMessage (systemMessage e aboutText) s"
| "slashCommands_action Theme e s =
     appendMessage (systemMessage e (themeText (theme s))) (toggleTheme s)"
| "slashCommands_action Save e s =
     appendMessage (systemMessage e saveText) (exportChat e s)"
| "slashCommands_action Stats e s = appendMessage (systemMessage e (statsText e s)) s"
| "slashCommands_action Reset e s =
     appendMessage (systemMessage e resetText)
       (s\<lparr>messages := [], inputHistory := [], historyIndex := - 1\<rparr>)"
| "slashCommands_action Templates e s = appendMessage (systemMessage e templatesText) s"
| "slashCommands_action Voice e s =
     (if \<not> isVoiceSupported s then appendMessage (systemMessage e voiceUnsupportedText) s
      else if isListening s then
        appendMessage (systemMessage e voiceStoppedText) (stopListening s)
      else appendMessage (systemMessage e voiceStartedText) (startListening s))"
| "slashCommands_action Pinned e s =
     appendMessage (systemMessage e (pinnedText (showPinnedPanel s)))
       (s\<lparr>showPinnedPanel := \<not> showPinnedPanel s\<rparr>)"

text \<open>
  \<open>slashCommands[commandKey]\<close>. \<open>slashCommands\<close> is an object literal, so a read of a
  key that is not one of its ten own properties goes on to \<open>Object.prototype\<close>. The key
  has been lower-cased, and the names of \<open>Object.prototype\<close> without an upper-case
  letter are \<open>constructor\<close> and \<open>__proto__\<close>: both reads give an object, which is truthy
  and has no \<open>action\<close>.
\<close>

datatype property = Own command | Inherited | Absent

definition slashCommands_get :: "jsstring \<Rightarrow> property" where
  "slashCommands_get k =
     (if k = asc ''help'' then Own Help
      else if k = asc ''clear'' then Own Clear
      else if k = asc ''about'' then Own About
      else if k = asc ''theme'' then Own Theme
      else if k = asc ''save'' then Own Save
      else if k = asc ''stats'' then Own Stats
      else if k = asc ''reset'' then Own Reset
      else if k = asc ''templates'' then Own Templates
      else if k = asc ''voice'' then Own Voice
      else if k = asc ''pinned'' then Own Pinned
      else if k = asc ''constructor'' \<or> k = asc ''__proto__'' then Inherited
      else Absent)"

datatype error = TypeError | FetchError | HttpError nat | SyntaxError

text \<open>
  \<open>handleSlashCommand\<close> (lines 354-372). Calling the missing \<open>action\<close> of an
  inherited property throws a \<open>TypeError\<close> before any setter has run.
\<close>

definition handleSlashCommand :: "env \<Rightarrow> jsstring \<Rightarrow> state \<Rightarrow> error + (bool \<times> state)" where
  "handleSlashCommand e command s =
     (let cmd = trim (toLowerCase e command);
          commandKey = replaceSlash cmd
      in case slashCommands_get commandKey of
           Own c \<Rightarrow> Inr (True, slashCommands_action c e s)
         | Inherited \<Rightarrow> Inl TypeError
         | Absent \<Rightarrow> Inr (True, appendMessage (systemMessage e (unknownCommandText command)) s))"

subsection \<open>History navigation\<close>

datatype key = ArrowUp | ArrowDown | OtherKey

text \<open>\<open>handleKeyDown\<close> (lines 457-479), on the \<open>key\<close> of the event.\<close>

definition handleKeyDown :: "key \<Rightarrow> state \<Rightarrow> state" where
  "handleKeyDown k s =
     (let n = int (length (inputHistory s)); h = historyIndex s in
      case k of
        ArrowUp \<Rightarrow>
          if h < n - 1 then
            (let newIndex = h + 1 in
             s\<lparr>historyIndex := newIndex, input := js_index (inputHistory s) (n - 1 - newIndex)\<rparr>)
          else if h = - 1 \<and> n > 0 then
            s\<lparr>historyIndex := 0, input := js_index (inputHistory s) (n - 1)\<rparr>
          else s
      | ArrowDown \<Rightarrow>
          if h > 0 then
            (let newIndex = h - 1 in
             s\<lparr>historyIndex := newIndex, input := js_index (inputHistory s) (n - 1 - newIndex)\<rparr>)
          else if h = 0 then s\<lparr>historyIndex := - 1, input := Some []\<rparr>
          else s
      | OtherKey \<Rightarrow> s)"

text \<open>Pressing "previous" \<open>k\<close> times.\<close>

fun previous :: "nat \<Rightarrow> state \<Rightarrow> state" where
  "previous 0 s = s"
| "previous (Suc k) s = handleKeyDown ArrowUp (previous k s)"

subsection \<open>Reading the payload\<close>

text \<open>
  Property access on a value that is neither \<open>null\<close> nor \<open>undefined\<close>, for the keys
  the handler reads: the names \<open>candidates\<close>, \<open>content\<close>, \<open>parts\<close>, \<open>text\<close>, which no
  prototype defines, and the index \<open>0\<close>. An object is looked up by the key (the index
  as the string "0"), an array and a string by the index, and every other read gives
  \<open>undefined\<close>.
\<close>

datatype propkey = Name jsstring | Index nat

fun getProp :: "jsval \<Rightarrow> propkey \<Rightarrow> jsval" where
  "getProp (JObj kvs) (Name k) = (case map_of kvs k of Some v \<Rightarrow> v | None \<Rightarrow> JUndefined)"
| "getProp (JObj kvs) (Index i) =
     (case map_of kvs (decimal i) of Some v \<Rightarrow> v | None \<Rightarrow> JUndefined)"
| "getProp (JArr xs) (Index i) = (if i < length xs then xs ! i else JUndefined)"
| "getProp (JStr cs) (Index i) = (if i < length cs then JStr [cs ! i] else JUndefined)"
| "getProp v k = JUndefined"

definition nullish :: "jsval \<Rightarrow> bool" where
  "nullish v = (v = JUndefined \<or> v = JNull)"

text \<open>\<open>v?.k\<close> and \<open>v?.[i]\<close>.\<close>

definition optChain :: "jsval \<Rightarrow> propkey \<Rightarrow> jsval" where
  "optChain v k = (if nullish v then JUndefined else getProp v k)"

text \<open>The truth of a value, as \<open>||\<close> tests it.\<close>

fun truthy :: "jsval \<Rightarrow> bool" where
  "truthy JUndefined = False"
| "truthy JNull = False"
| "truthy (JBool b) = b"
| "truthy (JNum q) = (q \<noteq> 0)"
| "truthy JNonFinite = True"
| "truthy (JStr cs) = (cs \<noteq> [])"
| "truthy (JArr xs) = True"
| "truthy (JObj kvs) = True"

text \<open>\<open>data.candidates?.[0]?.content?.parts?.[0]?.text\<close> (line 578).\<close>

definition firstText :: "jsval \<Rightarrow> error + jsval" where
  "firstText data =
     (if nullish data then Inl TypeError
      else Inr (optChain (optChain (optChain (optChain (optChain
                  (getProp data (Name (asc ''candidates''))) (Index 0))
                  (Name (asc ''content''))) (Name (asc ''parts''))) (Index 0))
                  (Name (asc ''text''))))"

definition generatedText :: "jsval \<Rightarrow> error + jsval" where
  "generatedText data =
     (case firstText data of
        Inl err \<Rightarrow> Inl err
      | Inr t \<Rightarrow> Inr (if truthy t then t else JStr noResponseText))"

text \<open>
  The first generated text field of a payload, in the words of the specification:
  the field \<open>text\<close> of the first element of \<open>parts\<close> of the field \<open>content\<close> of the
  first element of \<open>candidates\<close>, and \<open>None\<close> when a step of that path is
  structurally absent. A field is read from an object. A first element is the one at
  index 0: of an array its head, of an object its property \<open>0\<close>, of a string its first
  code unit. This definition does not use \<open>getProp\<close>, \<open>optChain\<close> or \<open>firstText\<close>;
  the properties compare the handler against it.
\<close>

fun field :: "jsstring \<Rightarrow> jsval \<Rightarrow> jsval option" where
  "field k (JObj kvs) = map_of kvs k"
| "field k v = None"

fun firstElement :: "jsval \<Rightarrow> jsval option" where
  "firstElement (JArr (x # xs)) = Some x"
| "firstElement (JObj kvs) = map_of kvs [48]"
| "firstElement (JStr (c # cs)) = Some (JStr [c])"
| "firstElement v = None"

definition firstGeneratedText :: "jsval \<Rightarrow> jsval option" where
  "firstGeneratedText data =
     Option.bind (Option.bind (Option.bind (Option.bind (Option.bind
       (field (asc ''candidates'') data) firstElement)
       (field (asc ''content''))) (field (asc ''parts''))) firstElement)
       (field (asc ''text''))"

subsection \<open>Submission and the remote completion\<close>

text \<open>
  \<open>handleSubmit\<close> (lines 513-602) is asynchronous. Its first part runs with the submit
  event, up to the \<open>return\<close> after \<open>setTimeout\<close> or to the first \<open>await\<close>; the result
  says what is still to come. \<open>e.preventDefault()\<close> acts on the event and is left out.
\<close>

datatype pending = Settled | KeyMissingTimer | AwaitingFetch

definition handleSubmit :: "env \<Rightarrow> state \<Rightarrow> error + (state \<times> pending)" where
  "handleSubmit e s =
     (case input s of
        None \<Rightarrow> Inl TypeError
      | Some inp \<Rightarrow>
          if trim inp = [] then Inr (s, Settled)
          else
            (case (if startsWith inp [47] then handleSlashCommand e inp s
                   else Inr (False, s)) of
               Inl err \<Rightarrow> Inl err
             | Inr (isCmd, s1) \<Rightarrow>
                 if isCmd then Inr (s1\<lparr>input := Some []\<rparr>, Settled)
                 else
                   (let s2 = appendMessage (userMessage e inp) s1;
                        s3 = (if js_index (inputHistory s) 0 \<noteq> Some (trim inp)
                              then s2\<lparr>inputHistory := trim inp # inputHistory s2\<rparr>
                              else s2);
                        s4 = s3\<lparr>historyIndex := - 1, input := Some [], isLoading := True\<rparr>
                    in if falsy_string (apiKey e)
                       then Inr (logEffect (SetTimeout 1000) s4, KeyMissingTimer)
                       else Inr (logEffect (NetworkRequest (the (apiKey e)) inp) s4,
                                 AwaitingFetch))))"

text \<open>The callback given to \<open>setTimeout\<close> (lines 543-554).\<close>

definition keyMissingCallback :: "env \<Rightarrow> state \<Rightarrow> state" where
  "keyMissingCallback e s =
     (appendMessage (assistantMessage e (JStr keyMissingText)) s)\<lparr>isLoading := False\<rparr>"

text \<open>
  How the request ends: \<open>fetch\<close> rejects, or it gives a response with a status, whose
  \<open>text()\<close> and \<open>json()\<close> each give a value or reject (\<open>None\<close>). \<open>response.ok\<close> is
  the status being in the range 200 to 299.
\<close>

datatype fetch_outcome = Rejected | Response nat "jsstring option" "jsval option"

definition response_ok :: "nat \<Rightarrow> bool" where
  "response_ok status = (200 \<le> status \<and> status \<le> 299)"

text \<open>The body of the \<open>try\<close> block after \<open>await fetch\<close> (lines 570-578).\<close>

fun tryBody :: "fetch_outcome \<Rightarrow> error + jsval" where
  "tryBody Rejected = Inl FetchError"
| "tryBody (Response status body js) =
     (if \<not> response_ok status then Inl (HttpError status)
      else case js of None \<Rightarrow> Inl SyntaxError | Some data \<Rightarrow> generatedText data)"

text \<open>
  The rest of \<open>handleSubmit\<close> once the request has ended (lines 580-601): the message
  of the \<open>try\<close> or of the \<open>catch\<close> block, then \<open>finally\<close>. The setters are given
  updater functions and act on the state of that moment, the argument \<open>s\<close>.
\<close>

definition handleSubmit_settle :: "env \<Rightarrow> fetch_outcome \<Rightarrow> state \<Rightarrow> state" where
  "handleSubmit_settle e out s =
     (case tryBody out of
        Inr text \<Rightarrow> (appendMessage (assistantMessage e text) s)\<lparr>isLoading := False\<rparr>
      | Inl err \<Rightarrow>
          (appendMessage (assistantMessage e (JStr apologyText)) (logEffect ConsoleError s))
            \<lparr>isLoading := False\<rparr>)"

subsection \<open>Concrete states and environments\<close>

text \<open>
  The state at mount, from the initial values of the \<open>useState\<close> calls (lines 27-43),
  for a browser that prefers the light theme and has nothing stored.
\<close>

definition mountState :: state where
  "mountState =
     \<lparr>messages = [], input = Some [], isLoading = False, inputHistory = [],
      historyIndex = - 1, showTemplates = False, showExport = False, isListening = False,
      isVoiceSupported = False, recognitionRef = False, showPinnedPanel = False,
      pinnedMessages = [], theme = asc ''light'', effects = []\<rparr>"

text \<open>An environment with a key configured, and the same one without.\<close>

definition exampleEnv :: env where
  "exampleEnv =
     \<lparr>toLowerCase = asciiLowerCase, toLocaleString = decimal, now = 1000,
      generateMessageId = asc ''m1'', apiKey = Some (asc ''secret'')\<rparr>"

definition noKeyEnv :: env where
  "noKeyEnv = exampleEnv\<lparr>apiKey := None\<rparr>"

text \<open>The requests among the effects of a state.\<close>

fun isNetworkRequest :: "effect \<Rightarrow> bool" where
  "isNetworkRequest (NetworkRequest k p) = True"
| "isNetworkRequest x = False"

definition networkRequests :: "state \<Rightarrow> effect list" where
  "networkRequests s = filter isNetworkRequest (effects s)"

text \<open>Two messages of a running chat, the second one pinned, and the state holding them.\<close>

definition firstMessage :: message where
  "firstMessage = userMessage exampleEnv (asc ''hello'')"

definition secondMessage :: message where
  "secondMessage =
     (assistantMessage exampleEnv (JStr (asc ''hi there'')))
       \<lparr>id := Some (asc ''m2''), isPinned := Some True\<rparr>"

definition chatState :: state where
  "chatState = mountState\<lparr>messages := [firstMessage, secondMessage],
                          pinnedMessages := [secondMessage]\<rparr>"

text \<open>The history of the example: \<open>b\<close> was submitted after \<open>a\<close>.\<close>

definition historyState :: state where
  "historyState = mountState\<lparr>inputHistory := [asc ''b'', asc ''a'']\<rparr>"

text \<open>A submission of \<open>/reset\<close> after \<open>hello\<close> has been sent.\<close>

definition resetSubmission :: state where
  "resetSubmission =
     mountState\<lparr>input := Some (asc ''/reset''), inputHistory := [asc ''hello'']\<rparr>"

text \<open>
  Payloads of the completion endpoint: one of the shape the endpoint answers with,
  whose first text is \<open>t\<close>, and one with no candidates.
\<close>

definition textPayload :: "jsval \<Rightarrow> jsval" where
  "textPayload t =
     JObj [(asc ''modelVersion'', JStr (asc ''gemini-1.5-flash'')),
           (asc ''candidates'',
            JArr [JObj [(asc ''finishReason'', JStr (asc ''STOP'')),
                        (asc ''content'',
                         JObj [(asc ''role'', JStr (asc ''model'')),
                               (asc ''parts'',
                                JArr [JObj [(asc ''text'', t)],
                                      JObj [(asc ''text'', JStr (asc ''more''))]])])],
                  JObj [(asc ''finishReason'', JStr (asc ''OTHER''))]])]"

definition emptyPayload :: jsval where
  "emptyPayload = JObj [(asc ''candidates'', JArr [])]"
section \<open>Properties\<close>

subsection \<open>Helper lemmas\<close>

lemma asc_simps: "asc [] = []" "asc (c # cs) = of_char c # asc cs"
  by (simp_all add: asc_def)

lemma pin_consistent_iff:
  "pin_consistent s \<longleftrightarrow>
     (\<forall>m \<in> set (messages s).
        (isPinned m = Some True) = (\<exists>p \<in> set (pinnedMessages s). id p = id m))"
  by (simp add: pin_consistent_def pinned_flag_def list_all_iff list_ex_iff)

lemma unpin_consistent:
  assumes "pin_consistent s"
  shows "pin_consistent
           (s\<lparr>pinnedMessages := filter (\<lambda>m. id m \<noteq> i) (pinnedMessages s),
              messages := map (\<lambda>m. if id m = i then m\<lparr>isPinned := Some False\<rparr> else m)
                              (messages s)\<rparr>)"
  using assms unfolding pin_consistent_iff by fastforce

lemma pin_consistent_step:
  assumes inv: "pin_consistent s" and p: "id p = i"
  shows "pin_consistent
           (s\<lparr>pinnedMessages := pinnedMessages s @ [p],
              messages := map (\<lambda>m. if id m = i then m\<lparr>isPinned := Some True\<rparr> else m)
                              (messages s)\<rparr>)"
proof -
  let ?f = "\<lambda>m. if id m = i then m\<lparr>isPinned := Some True\<rparr> else m"
  have "(isPinned (?f y) = Some True) = (\<exists>q \<in> set (pinnedMessages s @ [p]). id q = id (?f y))"
    if y: "y \<in> set (messages s)" for y
  proof (cases "id y = i")
    case True
    then show ?thesis using p by simp
  next
    case False
    from inv y have "(isPinned y = Some True) = (\<exists>q \<in> set (pinnedMessages s). id q = id y)"
      by (simp add: pin_consistent_iff)
    with False p show ?thesis by auto
  qed
  then show ?thesis by (simp add: pin_consistent_iff del: if_image_distrib)
qed

lemma togglePinMessage_consistent:
  "pin_consistent s \<Longrightarrow> pin_consistent (togglePinMessage msg s)"
  by (simp add: togglePinMessage_def unpin_consistent pin_consistent_step)

lemma togglePinMessage_no_id: "no_id m \<Longrightarrow> togglePinMessage m s = s"
  by (simp add: togglePinMessage_def)

lemma togglePins_consistent: "pin_consistent s \<Longrightarrow> pin_consistent (togglePins ms s)"
  by (induction ms arbitrary: s) (simp_all add: togglePinMessage_consistent)

text \<open>
  The agreement holds at mount, where the main list is empty, and it survives the
  appending of a message that is not flagged and whose id no pinned message has.
\<close>

lemma mount_consistent: "messages s = [] \<Longrightarrow> pin_consistent s"
  by (simp add: pin_consistent_def)

lemma appendMessage_consistent:
  assumes "pin_consistent s" "isPinned m = None"
    and "\<forall>p \<in> set (pinnedMessages s). id p \<noteq> id m"
  shows "pin_consistent (appendMessage m s)"
  using assms by (simp add: pin_consistent_iff appendMessage_def)

lemma handleKeyDown_previous:
  assumes "historyIndex s < int (length (inputHistory s)) - 1"
  shows "handleKeyDown ArrowUp s =
           s\<lparr>historyIndex := historyIndex s + 1,
             input := js_index (inputHistory s)
                        (int (length (inputHistory s)) - 1 - (historyIndex s + 1))\<rparr>"
  using assms by (simp add: handleKeyDown_def Let_def)

lemma handleKeyDown_previous_end:
  assumes "historyIndex s \<ge> int (length (inputHistory s)) - 1"
  shows "handleKeyDown ArrowUp s = s"
  using assms by (auto simp add: handleKeyDown_def Let_def)

subsection \<open>Pinning keeps the two collections consistent\<close>

text \<open>
  Claim C1. From a state in which the flags of the main list agree with the pinned
  list, after any sequence of Toggle Pin calls, whatever message each call is given,
  the \<open>isPinned\<close> flag of a message of \<open>messages\<close> is true if and only if
  \<open>pinnedMessages\<close> holds a message of the same id; and a Toggle Pin call on a message
  without an id changes neither collection.
\<close>

theorem toggle_pin_invariant:
  "(pin_consistent s \<longrightarrow>
      (\<forall>m \<in> set (messages (togglePins ms s)).
         isPinned m = Some True \<longleftrightarrow>
         (\<exists>p \<in> set (pinnedMessages (togglePins ms s)). id p = id m))) \<and>
   (id msg = None \<longrightarrow>
      messages (togglePinMessage msg s) = messages s \<and>
      pinnedMessages (togglePinMessage msg s) = pinnedMessages s)"
proof (intro conjI impI)
  assume "pin_consistent s"
  then have "pin_consistent (togglePins ms s)" by (rule togglePins_consistent)
  then show "\<forall>m \<in> set (messages (togglePins ms s)).
         isPinned m = Some True \<longleftrightarrow>
         (\<exists>p \<in> set (pinnedMessages (togglePins ms s)). id p = id m)"
    by (simp add: pin_consistent_iff)
next
  assume "id msg = None"
  then have "togglePinMessage msg s = s"
    by (simp add: togglePinMessage_no_id no_id_def)
  then show "messages (togglePinMessage msg s) = messages s" by simp
next
  assume "id msg = None"
  then have "togglePinMessage msg s = s"
    by (simp add: togglePinMessage_no_id no_id_def)
  then show "pinnedMessages (togglePinMessage msg s) = pinnedMessages s" by simp
qed

text \<open>
  The theorem at a chat of two messages, the second one pinned: pinning the first and
  unpinning the second leaves the flags \<open>true\<close>, \<open>false\<close> and the first message alone
  in the pinned list.
\<close>

theorem toggle_pin_invariant_witness:
  "pin_consistent chatState \<and>
   pin_consistent (togglePins [firstMessage, secondMessage] chatState) \<and>
   map isPinned (messages (togglePins [firstMessage, secondMessage] chatState))
     = [Some True, Some False] \<and>
   map id (pinnedMessages (togglePins [firstMessage, secondMessage] chatState))
     = [Some (asc ''m1'')] \<and>
   messages (togglePinMessage (firstMessage\<lparr>id := None\<rparr>) chatState) = messages chatState \<and>
   pinnedMessages (togglePinMessage (firstMessage\<lparr>id := None\<rparr>) chatState)
     = pinnedMessages chatState"
proof -
  have start: "pin_consistent chatState" by code_simp
  have flags: "map isPinned (messages (togglePins [firstMessage, secondMessage] chatState))
     = [Some True, Some False]" by code_simp
  have pins: "map id (pinnedMessages (togglePins [firstMessage, secondMessage] chatState))
     = [Some (asc ''m1'')]" by code_simp
  have noid: "id (firstMessage\<lparr>id := None\<rparr>) = None" by simp
  note inst = toggle_pin_invariant [of chatState "[firstMessage, secondMessage]"
      "firstMessage\<lparr>id := None\<rparr>"]
  from inst start have "pin_consistent (togglePins [firstMessage, secondMessage] chatState)"
    by (simp add: pin_consistent_iff)
  moreover from inst noid
  have "messages (togglePinMessage (firstMessage\<lparr>id := None\<rparr>) chatState) = messages chatState \<and>
    pinnedMessages (togglePinMessage (firstMessage\<lparr>id := None\<rparr>) chatState)
     = pinnedMessages chatState" by blast
  ultimately show ?thesis using start flags pins by blast
qed

subsection \<open>History navigation\<close>

text \<open>
  Claim C2 at the history that the claim names. \<open>handleSubmit\<close> puts a new entry at
  the head of \<open>inputHistory\<close>: once \<open>a\<close> and then \<open>b\<close> have been submitted the
  history is \<open>["b", "a"]\<close>, most recent first. From there, with \<open>historyIndex = -1\<close>,
  the claim has the first "previous" navigation recall \<open>"b"\<close>, the second \<open>"a"\<close> and
  the third stay at \<open>"a"\<close>. \<open>handleKeyDown\<close> reads position
  \<open>length - 1 - newIndex\<close>, which counts from the oldest entry: the buffer is set to
  \<open>"a"\<close>, then to \<open>"b"\<close>, and the third navigation leaves it at \<open>"b"\<close>.
\<close>

theorem history_previous_oldest_first:
  "(case handleSubmit noKeyEnv (mountState\<lparr>input := Some (asc ''a'')\<rparr>) of
      Inl err \<Rightarrow> []
    | Inr (s1, p1) \<Rightarrow>
        (case handleSubmit noKeyEnv (s1\<lparr>input := Some (asc ''b'')\<rparr>) of
           Inl err \<Rightarrow> []
         | Inr (s2, p2) \<Rightarrow> inputHistory s2)) = [asc ''b'', asc ''a''] \<and>
   inputHistory historyState = [asc ''b'', asc ''a''] \<and> historyIndex historyState = - 1 \<and>
   input (previous 1 historyState) = Some (asc ''a'') \<and>
   input (previous 1 historyState) \<noteq> Some (asc ''b'') \<and>
   input (previous 2 historyState) = Some (asc ''b'') \<and>
   input (previous 3 historyState) = Some (asc ''b'')"
proof -
  have ta: "trim (asc ''a'') = asc ''a''" and tb: "trim (asc ''b'') = asc ''b''"
    by (simp_all add: trim_def isWhiteSpace_def asc_simps)
  have na: "asc ''a'' \<noteq> []" "asc ''b'' \<noteq> []" "asc ''b'' \<noteq> asc ''a''"
    "asc ''a'' \<noteq> asc ''b''" "\<not> startsWith (asc ''a'') [47]" "\<not> startsWith (asc ''b'') [47]"
    by (simp_all add: startsWith_def asc_simps)
  have submits: "(case handleSubmit noKeyEnv (mountState\<lparr>input := Some (asc ''a'')\<rparr>) of
      Inl err \<Rightarrow> []
    | Inr (s1, p1) \<Rightarrow>
        (case handleSubmit noKeyEnv (s1\<lparr>input := Some (asc ''b'')\<rparr>) of
           Inl err \<Rightarrow> []
         | Inr (s2, p2) \<Rightarrow> inputHistory s2)) = [asc ''b'', asc ''a'']"
    by (simp add: handleSubmit_def ta tb na Let_def noKeyEnv_def exampleEnv_def
        falsy_string_def js_index_def mountState_def appendMessage_def logEffect_def)
  have h: "inputHistory historyState = [asc ''b'', asc ''a'']" "historyIndex historyState = - 1"
    by (simp_all add: historyState_def mountState_def)
  let ?s1 = "historyState\<lparr>historyIndex := 0, input := Some (asc ''a'')\<rparr>"
  let ?s2 = "historyState\<lparr>historyIndex := 1, input := Some (asc ''b'')\<rparr>"
  have s1: "handleKeyDown ArrowUp historyState = ?s1"
    by (simp add: handleKeyDown_previous h js_index_def)
  have s2: "handleKeyDown ArrowUp ?s1 = ?s2"
    by (simp add: handleKeyDown_previous h js_index_def)
  have s3: "handleKeyDown ArrowUp ?s2 = ?s2"
    by (simp add: handleKeyDown_previous_end h)
  have p1: "previous 1 historyState = ?s1" using s1 by simp
  have p2: "previous 2 historyState = ?s2" using s1 s2 by (simp add: numeral_2_eq_2)
  have p3: "previous 3 historyState = ?s2" using s1 s2 s3 by (simp add: numeral_3_eq_3)
  have i1: "input (previous 1 historyState) = Some (asc ''a'')" by (simp only: p1) simp
  have i2: "input (previous 2 historyState) = Some (asc ''b'')" by (simp only: p2) simp
  have i3: "input (previous 3 historyState) = Some (asc ''b'')" by (simp only: p3) simp
  have "Some (asc ''a'') \<noteq> Some (asc ''b'')" by (simp add: asc_simps)
  with i1 have n1: "input (previous 1 historyState) \<noteq> Some (asc ''b'')" by simp
  from submits h i1 n1 i2 i3 show ?thesis by blast
qed

subsection \<open>Submission\<close>

text \<open>
  Claim C3. A Submit whose input is empty once trimmed is a no-op: the handler returns
  with the state as it was, so no message is appended, \<open>inputHistory\<close> and
  \<open>historyIndex\<close> are unchanged, \<open>isLoading\<close> stays as it was, and nothing is pending.
\<close>

theorem submit_empty:
  "input s = Some text \<Longrightarrow> trim text = [] \<Longrightarrow> handleSubmit e s = Inr (s, Settled)"
  by (simp add: handleSubmit_def)

theorem submit_empty_witness:
  "trim [32, 9, 32] = [] \<and>
   handleSubmit exampleEnv (mountState\<lparr>input := Some [32, 9, 32]\<rparr>)
     = Inr (mountState\<lparr>input := Some [32, 9, 32]\<rparr>, Settled)"
proof -
  have t: "trim [32, 9, 32] = []" by (simp add: trim_def isWhiteSpace_def)
  have i: "input (mountState\<lparr>input := Some [32, 9, 32]\<rparr>) = Some [32, 9, 32]" by simp
  show ?thesis using t submit_empty [OF i t] by simp
qed

subsection \<open>Commands\<close>

lemmas state_ops = appendMessage_def logEffect_def networkRequests_def

lemmas action_ops = state_ops exportChat_def startListening_def stopListening_def toggleTheme_def

lemma systemMessage_role: "role (systemMessage e t) = System"
  by (simp add: systemMessage_def)

lemma action_messages_text:
  "messages (slashCommands_action c e s) =
     (if c = Clear \<or> c = Reset then [] else messages s) @
     [systemMessage e (case c of
         Help \<Rightarrow> helpText | Clear \<Rightarrow> clearText | About \<Rightarrow> aboutText
       | Theme \<Rightarrow> themeText (theme s) | Save \<Rightarrow> saveText | Stats \<Rightarrow> statsText e s
       | Reset \<Rightarrow> resetText | Templates \<Rightarrow> templatesText
       | Voice \<Rightarrow> (if \<not> isVoiceSupported s then voiceUnsupportedText
                    else if isListening s then voiceStoppedText else voiceStartedText)
       | Pinned \<Rightarrow> pinnedText (showPinnedPanel s))]"
  by (cases c) (simp_all add: action_ops)

lemma action_messages:
  "\<exists>t. messages (slashCommands_action c e s) =
     (if c = Clear \<or> c = Reset then [] else messages s) @ [systemMessage e t]"
  using action_messages_text [of c e s] by blast

lemma action_inputHistory:
  "inputHistory (slashCommands_action c e s) = (if c = Reset then [] else inputHistory s)"
  by (cases c) (simp_all add: action_ops)

lemma action_networkRequests:
  "networkRequests (slashCommands_action c e s) = networkRequests s"
  by (cases c) (simp_all add: action_ops)

lemma action_isLoading: "isLoading (slashCommands_action c e s) = isLoading s"
  by (cases c) (simp_all add: action_ops)

lemma handleSlashCommand_cases:
  "handleSlashCommand e command s =
     (case slashCommands_get (replaceSlash (trim (toLowerCase e command))) of
        Own c \<Rightarrow> Inr (True, slashCommands_action c e s)
      | Inherited \<Rightarrow> Inl TypeError
      | Absent \<Rightarrow> Inr (True, appendMessage (systemMessage e (unknownCommandText command)) s))"
  by (simp add: handleSlashCommand_def Let_def)

lemma handleSlashCommand_result:
  assumes "handleSlashCommand e command s = Inr (h, s1)"
  shows "h \<and> (\<exists>m. role m = System \<and> (messages s1 = messages s @ [m] \<or> messages s1 = [m])) \<and>
         inputHistory s1 =
           (if slashCommands_get (replaceSlash (trim (toLowerCase e command))) = Own Reset
            then [] else inputHistory s) \<and>
         networkRequests s1 = networkRequests s \<and> isLoading s1 = isLoading s"
proof (cases "slashCommands_get (replaceSlash (trim (toLowerCase e command)))")
  case (Own c)
  with assms have h: "h" and s1: "s1 = slashCommands_action c e s"
    by (simp_all add: handleSlashCommand_cases)
  obtain t where
    "messages s1 = (if c = Clear \<or> c = Reset then [] else messages s) @ [systemMessage e t]"
    unfolding s1 using action_messages by blast
  then have "messages s1 = messages s @ [systemMessage e t] \<or> messages s1 = [systemMessage e t]"
    by (simp split: if_splits)
  then have "\<exists>m. role m = System \<and> (messages s1 = messages s @ [m] \<or> messages s1 = [m])"
    using systemMessage_role [of e t] by blast
  with h Own show ?thesis
    by (simp add: s1 action_inputHistory action_networkRequests action_isLoading)
next
  case Inherited
  with assms show ?thesis by (simp add: handleSlashCommand_cases)
next
  case Absent
  with assms have h: "h"
    and s1: "s1 = appendMessage (systemMessage e (unknownCommandText command)) s"
    by (simp_all add: handleSlashCommand_cases)
  have "messages s1 = messages s @ [systemMessage e (unknownCommandText command)]"
    by (simp add: s1 appendMessage_def)
  then have "\<exists>m. role m = System \<and> (messages s1 = messages s @ [m] \<or> messages s1 = [m])"
    using systemMessage_role [of e "unknownCommandText command"] by blast
  with h Absent show ?thesis by (simp add: s1 state_ops)
qed

lemma startsWith_slash_trim: "startsWith inp [47] \<Longrightarrow> trim inp \<noteq> []"
  by (cases inp) (auto simp add: startsWith_def trim_def isWhiteSpace_def)

lemma submit_command_routed:
  assumes inp: "input s = Some inp" and slash: "startsWith inp [47]"
  shows "handleSubmit e s =
           (case handleSlashCommand e inp s of
              Inl err \<Rightarrow> Inl err
            | Inr (handled, s1) \<Rightarrow> Inr (s1\<lparr>input := Some []\<rparr>, Settled))"
proof -
  have ne: "trim inp \<noteq> []" using slash by (rule startsWith_slash_trim)
  show ?thesis
  proof (cases "handleSlashCommand e inp s")
    case (Inl err)
    with inp slash ne show ?thesis by (simp add: handleSubmit_def)
  next
    case (Inr r)
    with handleSlashCommand_result [of e inp s "fst r" "snd r"] have "fst r" by simp
    with Inr inp slash ne show ?thesis by (cases r) (simp add: handleSubmit_def)
  qed
qed

lemma submit_command_total:
  assumes inp: "input s = Some inp" and slash: "startsWith inp [47]"
    and r: "slashCommands_get (replaceSlash (trim (toLowerCase e inp))) = r"
    and ni: "r \<noteq> Inherited"
  shows "\<exists>s' t. handleSubmit e s = Inr (s', Settled) \<and> input s' = Some [] \<and>
           messages s' =
             (if r = Own Clear \<or> r = Own Reset then [] else messages s) @
             [\<lparr>role = System, content = JStr t, timestamp = Some (now e),
               isCommand = Some True, id = Some (generateMessageId e), isPinned = None\<rparr>] \<and>
           (r = Absent \<longrightarrow>
              t = [0x274C] @ asc '' Unknown command: '' @ inp @ [10] @
                  asc ''Type /help to see available commands.'') \<and>
           inputHistory s' = (if r = Own Reset then [] else inputHistory s) \<and>
           networkRequests s' = networkRequests s \<and> isLoading s' = isLoading s"
proof (cases r)
  case (Own c)
  with r have run: "handleSlashCommand e inp s = Inr (True, slashCommands_action c e s)"
    by (simp add: handleSlashCommand_cases)
  let ?s' = "(slashCommands_action c e s)\<lparr>input := Some []\<rparr>"
  have ret: "handleSubmit e s = Inr (?s', Settled)"
    by (simp add: submit_command_routed [OF inp slash] run)
  obtain t where t: "messages (slashCommands_action c e s) =
      (if c = Clear \<or> c = Reset then [] else messages s) @ [systemMessage e t]"
    using action_messages by blast
  have "messages ?s' =
             (if r = Own Clear \<or> r = Own Reset then [] else messages s) @
             [\<lparr>role = System, content = JStr t, timestamp = Some (now e),
               isCommand = Some True, id = Some (generateMessageId e), isPinned = None\<rparr>]"
    using t by (simp add: Own systemMessage_def)
  moreover have "inputHistory ?s' = (if r = Own Reset then [] else inputHistory s)"
    by (simp add: Own action_inputHistory)
  moreover have "networkRequests ?s' = networkRequests s"
    using action_networkRequests [of c e s] by (simp add: networkRequests_def)
  moreover have "isLoading ?s' = isLoading s" "input ?s' = Some []"
    by (simp_all add: action_isLoading)
  ultimately show ?thesis using ret Own by blast
next
  case Inherited
  with ni show ?thesis by simp
next
  case Absent
  let ?t = "[0x274C] @ asc '' Unknown command: '' @ inp @ [10] @
            asc ''Type /help to see available commands.''"
  let ?s' = "s\<lparr>messages := messages s @
                 [\<lparr>role = System, content = JStr ?t, timestamp = Some (now e),
                   isCommand = Some True, id = Some (generateMessageId e),
                   isPinned = None\<rparr>],
               input := Some []\<rparr>"
  from Absent r
  have run: "handleSlashCommand e inp s =
    Inr (True, appendMessage (systemMessage e (unknownCommandText inp)) s)"
    by (simp add: handleSlashCommand_cases)
  have ret: "handleSubmit e s = Inr (?s', Settled)"
    by (simp add: submit_command_routed [OF inp slash] run appendMessage_def
        systemMessage_def unknownCommandText_def)
  have "messages ?s' =
             (if r = Own Clear \<or> r = Own Reset then [] else messages s) @
             [\<lparr>role = System, content = JStr ?t, timestamp = Some (now e),
               isCommand = Some True, id = Some (generateMessageId e), isPinned = None\<rparr>]"
    by (simp add: Absent)
  moreover have "inputHistory ?s' = (if r = Own Reset then [] else inputHistory s)"
    "networkRequests ?s' = networkRequests s" "isLoading ?s' = isLoading s"
    "input ?s' = Some []"
    by (simp_all add: Absent networkRequests_def)
  ultimately show ?thesis using ret by blast
qed

text \<open>
  Claim C4, as the claim states it, fails: \<open>/reset\<close> begins with the command prefix
  and its action empties \<open>inputHistory\<close>.
\<close>

theorem submit_command_counterexample:
  "input resetSubmission = Some (asc ''/reset'') \<and> startsWith (asc ''/reset'') [47] \<and>
   inputHistory resetSubmission = [asc ''hello''] \<and>
   handleSubmit exampleEnv resetSubmission =
     Inr (resetSubmission
            \<lparr>messages :=
               [\<lparr>role = System,
                 content = JStr ([0xD83D, 0xDD04] @
                   asc '' Chat reset successfully! Ready for a fresh conversation.''),
                 timestamp = Some 1000, isCommand = Some True, id = Some (asc ''m1''),
                 isPinned = None\<rparr>],
             input := Some [], inputHistory := [], historyIndex := - 1\<rparr>, Settled)"
  by (simp add: resetSubmission_def mountState_def exampleEnv_def handleSubmit_def
      handleSlashCommand_cases startsWith_def trim_def isWhiteSpace_def asciiLowerCase_def
      replaceSlash_def slashCommands_get_def asc_simps state_ops systemMessage_def
      resetText_def)

text \<open>
  Claim C4, amended. For every input that begins with the command prefix \<open>/\<close> and
  whose normalized name is not a property that the registry object inherits
  (\<open>constructor\<close>, \<open>__proto__\<close>), Submit routes the input to command dispatch and
  returns with nothing pending and the input buffer cleared. It appends exactly one
  message, of role \<open>system\<close>, so no \<open>user\<close> message: to the emptied list when the
  command is \<open>clear\<close> or \<open>reset\<close>, to the list as it was otherwise; for a name
  outside the registry the message holds the submitted text and the hint to use
  \<open>/help\<close>. \<open>inputHistory\<close> gets no new entry: \<open>reset\<close> empties it, every other
  input leaves it unchanged. The Remote Completion Client is not invoked: no request
  is issued and \<open>isLoading\<close> is as before.
\<close>

theorem submit_command:
  "input s = Some inp \<Longrightarrow> startsWith inp [47] \<Longrightarrow>
   slashCommands_get (replaceSlash (trim (toLowerCase e inp))) = r \<Longrightarrow> r \<noteq> Inherited \<Longrightarrow>
     handleSubmit e s =
       (case handleSlashCommand e inp s of
          Inl err \<Rightarrow> Inl err
        | Inr (handled, s1) \<Rightarrow> Inr (s1\<lparr>input := Some []\<rparr>, Settled)) \<and>
     (\<exists>s' t. handleSubmit e s = Inr (s', Settled) \<and> input s' = Some [] \<and>
        messages s' =
          (if r = Own Clear \<or> r = Own Reset then [] else messages s) @
          [\<lparr>role = System, content = JStr t, timestamp = Some (now e),
            isCommand = Some True, id = Some (generateMessageId e), isPinned = None\<rparr>] \<and>
        (r = Absent \<longrightarrow>
           t = [0x274C] @ asc '' Unknown command: '' @ inp @ [10] @
               asc ''Type /help to see available commands.'') \<and>
        inputHistory s' = (if r = Own Reset then [] else inputHistory s) \<and>
        networkRequests s' = networkRequests s \<and> isLoading s' = isLoading s)"
  using submit_command_routed [of s inp e] submit_command_total [of s inp e r] by blast

text \<open>
  The theorem at \<open>/Help\<close> with a trailing space, in the chat of two messages, and at
  \<open>/flibbertigibbet\<close> at mount.
\<close>

theorem submit_command_witness:
  "input (chatState\<lparr>input := Some (asc ''/Help '')\<rparr>) = Some (asc ''/Help '') \<and>
   startsWith (asc ''/Help '') [47] \<and>
   slashCommands_get (replaceSlash (trim (toLowerCase exampleEnv (asc ''/Help '')))) = Own Help \<and>
   Own Help \<noteq> Inherited \<and>
   handleSubmit exampleEnv (chatState\<lparr>input := Some (asc ''/Help '')\<rparr>) =
     Inr (chatState\<lparr>input := Some [],
            messages := [firstMessage, secondMessage,
              \<lparr>role = System, content = JStr helpText, timestamp = Some 1000,
                isCommand = Some True, id = Some (asc ''m1''), isPinned = None\<rparr>]\<rparr>,
          Settled) \<and>
   slashCommands_get
     (replaceSlash (trim (toLowerCase exampleEnv (asc ''/flibbertigibbet'')))) = Absent \<and>
   handleSubmit exampleEnv (mountState\<lparr>input := Some (asc ''/flibbertigibbet'')\<rparr>) =
     Inr (mountState\<lparr>input := Some [],
            messages := [
              \<lparr>role = System,
                content = JStr ([0x274C] @ asc '' Unknown command: /flibbertigibbet'' @ [10] @
                                asc ''Type /help to see available commands.''),
                timestamp = Some 1000, isCommand = Some True, id = Some (asc ''m1''),
                isPinned = None\<rparr>]\<rparr>,
          Settled)"
proof -
  let ?s = "chatState\<lparr>input := Some (asc ''/Help '')\<rparr>"
  let ?u = "mountState\<lparr>input := Some (asc ''/flibbertigibbet'')\<rparr>"
  have i: "input ?s = Some (asc ''/Help '')" by simp
  have sw: "startsWith (asc ''/Help '') [47]" by (simp add: startsWith_def asc_simps)
  have key: "replaceSlash (trim (toLowerCase exampleEnv (asc ''/Help ''))) = asc ''help''"
    by (simp add: exampleEnv_def trim_def isWhiteSpace_def asciiLowerCase_def
        replaceSlash_def asc_simps)
  have get: "slashCommands_get (replaceSlash (trim (toLowerCase exampleEnv (asc ''/Help ''))))
      = Own Help"
    unfolding key by (simp add: slashCommands_get_def)
  have ni: "Own Help \<noteq> Inherited" by simp
  have env: "now exampleEnv = 1000" "generateMessageId exampleEnv = asc ''m1''"
    by (simp_all add: exampleEnv_def)
  have routed: "handleSubmit exampleEnv ?s =
       (case handleSlashCommand exampleEnv (asc ''/Help '') ?s of
          Inl err \<Rightarrow> Inl err
        | Inr (handled, s1) \<Rightarrow> Inr (s1\<lparr>input := Some []\<rparr>, Settled))"
    using submit_command [OF i sw get ni] by (rule conjunct1)
  have run1: "handleSubmit exampleEnv ?s =
     Inr (chatState\<lparr>input := Some [],
            messages := [firstMessage, secondMessage,
              \<lparr>role = System, content = JStr helpText, timestamp = Some 1000,
                isCommand = Some True, id = Some (asc ''m1''), isPinned = None\<rparr>]\<rparr>,
          Settled)"
    unfolding routed
    by (simp add: handleSlashCommand_cases get appendMessage_def systemMessage_def env
        chatState_def)
  have j: "input ?u = Some (asc ''/flibbertigibbet'')" by simp
  have sw2: "startsWith (asc ''/flibbertigibbet'') [47]"
    by (simp add: startsWith_def asc_simps)
  have get2: "slashCommands_get
     (replaceSlash (trim (toLowerCase exampleEnv (asc ''/flibbertigibbet'')))) = Absent"
    by (simp add: exampleEnv_def trim_def isWhiteSpace_def asciiLowerCase_def
        replaceSlash_def slashCommands_get_def asc_simps)
  have ni2: "Absent \<noteq> Inherited" by simp
  have routed2: "handleSubmit exampleEnv ?u =
       (case handleSlashCommand exampleEnv (asc ''/flibbertigibbet'') ?u of
          Inl err \<Rightarrow> Inl err
        | Inr (handled, s1) \<Rightarrow> Inr (s1\<lparr>input := Some []\<rparr>, Settled))"
    using submit_command [OF j sw2 get2 ni2] by (rule conjunct1)
  have hs: "handleSlashCommand exampleEnv (asc ''/flibbertigibbet'') ?u =
      Inr (True, appendMessage
                   (systemMessage exampleEnv (unknownCommandText (asc ''/flibbertigibbet''))) ?u)"
    by (simp add: handleSlashCommand_cases get2)
  have run2: "handleSubmit exampleEnv ?u =
     Inr (mountState\<lparr>input := Some [],
            messages := [
              \<lparr>role = System,
                content = JStr ([0x274C] @ asc '' Unknown command: /flibbertigibbet'' @ [10] @
                                asc ''Type /help to see available commands.''),
                timestamp = Some 1000, isCommand = Some True, id = Some (asc ''m1''),
                isPinned = None\<rparr>]\<rparr>,
          Settled)"
    unfolding routed2 hs
    by (simp add: appendMessage_def systemMessage_def unknownCommandText_def env
        mountState_def asc_def)
  from i sw get ni run1 get2 run2 show ?thesis by blast
qed

text \<open>
  Claim C5 at the input \<open>/constructor\<close>. The name \<open>constructor\<close> is not one of the ten
  commands, but the registry lookup finds the property every object inherits, takes
  the branch of a known command and calls an \<open>action\<close> that is not there: the handler
  throws, no message is appended and the input buffer is not cleared.
\<close>

theorem unknown_command_inherited:
  "slashCommands_get (asc ''constructor'') = Inherited \<and>
   handleSlashCommand exampleEnv (asc ''/constructor'') mountState = Inl TypeError \<and>
   handleSubmit exampleEnv (mountState\<lparr>input := Some (asc ''/constructor'')\<rparr>) = Inl TypeError"
  by (simp add: mountState_def exampleEnv_def handleSubmit_def handleSlashCommand_cases
      startsWith_def trim_def isWhiteSpace_def asciiLowerCase_def replaceSlash_def
      slashCommands_get_def asc_simps)

text \<open>
  For every other name outside the registry the unknown-command branch is taken: one
  \<open>system\<close> message with the submitted text and the hint is appended.
\<close>

lemma unknown_command_absent:
  assumes "slashCommands_get (replaceSlash (trim (toLowerCase e command))) = Absent"
  shows "handleSlashCommand e command s =
           Inr (True, s\<lparr>messages := messages s @
                  [systemMessage e ([0x274C] @ asc '' Unknown command: '' @ command @ [10] @
                     asc ''Type /help to see available commands.'')]\<rparr>)"
  using assms by (simp add: handleSlashCommand_cases appendMessage_def unknownCommandText_def)

text \<open>
  Claim C8. The \<open>clear\<close> command leaves \<open>messages\<close> equal to exactly one message,
  of role \<open>system\<close>, whose content is the confirmation that the chat was cleared, and
  changes no other part of the state, so \<open>inputHistory\<close>, \<open>historyIndex\<close> and
  \<open>pinnedMessages\<close> are untouched. The \<open>reset\<close> command leaves \<open>messages\<close> equal
  to exactly one message, of role \<open>system\<close>, whose content is the confirmation of the
  reset, empties \<open>inputHistory\<close>, sets \<open>historyIndex\<close> to \<open>-1\<close> and changes
  nothing else, so \<open>pinnedMessages\<close> is untouched.
\<close>

theorem clear_and_reset:
  "slashCommands_get (asc ''clear'') = Own Clear \<and>
   slashCommands_get (asc ''reset'') = Own Reset \<and>
   slashCommands_action Clear e s =
     s\<lparr>messages :=
         [\<lparr>role = System,
           content = JStr ([0xD83D, 0xDDD1, 0xFE0F] @ asc '' Chat cleared successfully!''),
           timestamp = Some (now e), isCommand = Some True,
           id = Some (generateMessageId e), isPinned = None\<rparr>]\<rparr> \<and>
   slashCommands_action Reset e s =
     s\<lparr>messages :=
         [\<lparr>role = System,
           content = JStr ([0xD83D, 0xDD04] @
             asc '' Chat reset successfully! Ready for a fresh conversation.''),
           timestamp = Some (now e), isCommand = Some True,
           id = Some (generateMessageId e), isPinned = None\<rparr>],
       inputHistory := [], historyIndex := - 1\<rparr> \<and>
   pinnedMessages (slashCommands_action Clear e s) = pinnedMessages s \<and>
   pinnedMessages (slashCommands_action Reset e s) = pinnedMessages s \<and>
   inputHistory (slashCommands_action Clear e s) = inputHistory s \<and>
   historyIndex (slashCommands_action Clear e s) = historyIndex s"
  by (simp add: slashCommands_get_def asc_simps state_ops systemMessage_def clearText_def
      resetText_def)

text \<open>
  Claim C10. Dispatching \<open>/save\<close> runs the \<open>save\<close> action. When \<open>messages\<close> is
  empty the action raises the alert \<open>No messages to export!\<close> and starts no download,
  and it still appends exactly one message, of role \<open>system\<close>, whose content announces
  that the chat was exported successfully. That message is appended in every state,
  also when the export took place.
\<close>

theorem save_empty:
  "(replaceSlash (trim (toLowerCase e command)) = asc ''save'' \<longrightarrow>
      handleSlashCommand e command s = Inr (True, slashCommands_action Save e s)) \<and>
   (messages s = [] \<longrightarrow>
      slashCommands_action Save e s =
        s\<lparr>messages :=
            [\<lparr>role = System,
              content = JStr ([0xD83D, 0xDCBE] @ asc '' Chat exported successfully!''),
              timestamp = Some (now e), isCommand = Some True,
              id = Some (generateMessageId e), isPinned = None\<rparr>],
          effects := effects s @ [Alert (asc ''No messages to export!'')]\<rparr>) \<and>
   messages (slashCommands_action Save e s) = messages s @
     [\<lparr>role = System,
       content = JStr ([0xD83D, 0xDCBE] @ asc '' Chat exported successfully!''),
       timestamp = Some (now e), isCommand = Some True,
       id = Some (generateMessageId e), isPinned = None\<rparr>] \<and>
   (messages s \<noteq> [] \<longrightarrow>
      effects (slashCommands_action Save e s) = effects s @ [Download (now e) (messages s)])"
  by (simp add: handleSlashCommand_cases slashCommands_get_def asc_simps state_ops
      exportChat_def systemMessage_def saveText_def exportAlertText_def)

text \<open>
  The theorem at \<open>/save\<close> at mount, where there is nothing to export, and in the chat
  of two messages.
\<close>

theorem save_empty_witness:
  "messages mountState = [] \<and>
   replaceSlash (trim (toLowerCase exampleEnv (asc ''/save''))) = asc ''save'' \<and>
   handleSlashCommand exampleEnv (asc ''/save'') mountState =
     Inr (True, mountState
            \<lparr>messages :=
               [\<lparr>role = System,
                 content = JStr ([0xD83D, 0xDCBE] @ asc '' Chat exported successfully!''),
                 timestamp = Some 1000, isCommand = Some True, id = Some (asc ''m1''),
                 isPinned = None\<rparr>],
             effects := [Alert (asc ''No messages to export!'')]\<rparr>) \<and>
   messages chatState \<noteq> [] \<and>
   effects (slashCommands_action Save exampleEnv chatState) =
     [Download 1000 [firstMessage, secondMessage]] \<and>
   map role (messages (slashCommands_action Save exampleEnv chatState)) =
     [User, Assistant, System]"
proof -
  have m: "messages mountState = []" "effects mountState = []"
    by (simp_all add: mountState_def)
  have key: "replaceSlash (trim (toLowerCase exampleEnv (asc ''/save''))) = asc ''save''"
    by (simp add: exampleEnv_def trim_def isWhiteSpace_def asciiLowerCase_def
        replaceSlash_def asc_simps)
  have c: "messages chatState = [firstMessage, secondMessage]" "effects chatState = []"
    "now exampleEnv = 1000" "generateMessageId exampleEnv = asc ''m1''"
    by (simp_all add: chatState_def mountState_def exampleEnv_def)
  have r: "role firstMessage = User" "role secondMessage = Assistant"
    by (simp_all add: firstMessage_def secondMessage_def userMessage_def assistantMessage_def)
  from save_empty [of exampleEnv "asc ''/save''" mountState] key
  have "handleSlashCommand exampleEnv (asc ''/save'') mountState =
     Inr (True, slashCommands_action Save exampleEnv mountState)"
    by blast
  moreover from save_empty [of exampleEnv "asc ''/save''" mountState] m
  have "slashCommands_action Save exampleEnv mountState =
      mountState
            \<lparr>messages :=
               [\<lparr>role = System,
                 content = JStr ([0xD83D, 0xDCBE] @ asc '' Chat exported successfully!''),
                 timestamp = Some 1000, isCommand = Some True, id = Some (asc ''m1''),
                 isPinned = None\<rparr>],
             effects := [Alert (asc ''No messages to export!'')]\<rparr>"
    by (simp add: c)
  ultimately have a: "handleSlashCommand exampleEnv (asc ''/save'') mountState =
     Inr (True, mountState
            \<lparr>messages :=
               [\<lparr>role = System,
                 content = JStr ([0xD83D, 0xDCBE] @ asc '' Chat exported successfully!''),
                 timestamp = Some 1000, isCommand = Some True, id = Some (asc ''m1''),
                 isPinned = None\<rparr>],
             effects := [Alert (asc ''No messages to export!'')]\<rparr>)"
    by simp
  from save_empty [of exampleEnv "asc ''/save''" chatState] c
  have b: "effects (slashCommands_action Save exampleEnv chatState) =
     [Download 1000 [firstMessage, secondMessage]]"
    and d: "map role (messages (slashCommands_action Save exampleEnv chatState)) =
     [User, Assistant, System]"
    by (simp_all add: r)
  from m key a b d c show ?thesis by simp
qed

subsection \<open>The remote completion\<close>

lemma submit_message:
  assumes "input s = Some inp" "trim inp \<noteq> []" "\<not> startsWith inp [47]"
  shows "handleSubmit e s =
     (let s4 = s\<lparr>messages := messages s @ [userMessage e inp],
                  inputHistory := (if js_index (inputHistory s) 0 \<noteq> Some (trim inp)
                                   then trim inp # inputHistory s else inputHistory s),
                  historyIndex := - 1, input := Some [], isLoading := True\<rparr>
      in if falsy_string (apiKey e)
         then Inr (s4\<lparr>effects := effects s @ [SetTimeout 1000]\<rparr>, KeyMissingTimer)
         else Inr (s4\<lparr>effects := effects s @ [NetworkRequest (the (apiKey e)) inp]\<rparr>,
                   AwaitingFetch))"
  using assms by (simp add: handleSubmit_def Let_def state_ops)

lemma trim_hello: "trim (asc ''hello'') = asc ''hello''"
  by (simp add: trim_def isWhiteSpace_def asc_simps)

lemma trim_hello_ne: "trim (asc ''hello'') \<noteq> []"
  by (simp add: trim_def isWhiteSpace_def asc_simps)

lemma startsWith_hello: "\<not> startsWith (asc ''hello'') [47]"
  by (simp add: startsWith_def asc_simps)

text \<open>
  Claim C6. A non-command, non-empty message submitted with a key configured appends
  the user message, issues the request and sets \<open>isLoading\<close>. When \<open>fetch\<close>
  throws, or the response has a status outside 200-299, settling appends exactly one
  message: its role is \<open>assistant\<close> and its content is the fixed text
  \<open>Sorry, I encountered an error. Please try again.\<close> And however the request
  ends, \<open>isLoading\<close> is false afterwards.
\<close>

theorem remote_failure:
  "input s = Some inp \<Longrightarrow> trim inp \<noteq> [] \<Longrightarrow> \<not> startsWith inp [47] \<Longrightarrow>
   apiKey e = Some k \<Longrightarrow> k \<noteq> [] \<Longrightarrow>
     (\<exists>s1. handleSubmit e s = Inr (s1, AwaitingFetch) \<and>
           messages s1 = messages s @
             [\<lparr>role = User, content = JStr inp, timestamp = Some (now e), isCommand = None,
               id = Some (generateMessageId e), isPinned = None\<rparr>] \<and>
           isLoading s1 \<and> effects s1 = effects s @ [NetworkRequest k inp]) \<and>
     messages (handleSubmit_settle f Rejected u) = messages u @
       [\<lparr>role = Assistant,
         content = JStr (asc ''Sorry, I encountered an error. Please try again.''),
         timestamp = Some (now f), isCommand = None, id = Some (generateMessageId f),
         isPinned = None\<rparr>] \<and>
     (\<not> response_ok status \<longrightarrow>
        messages (handleSubmit_settle f (Response status body js) u) = messages u @
          [\<lparr>role = Assistant,
            content = JStr (asc ''Sorry, I encountered an error. Please try again.''),
            timestamp = Some (now f), isCommand = None, id = Some (generateMessageId f),
            isPinned = None\<rparr>]) \<and>
     isLoading (handleSubmit_settle f out u) = False"
proof (intro conjI impI)
  assume a: "input s = Some inp" "trim inp \<noteq> []" "\<not> startsWith inp [47]"
    and k: "apiKey e = Some k" "k \<noteq> []"
  from k have "\<not> falsy_string (apiKey e)" by (simp add: falsy_string_def)
  with k show "\<exists>s1. handleSubmit e s = Inr (s1, AwaitingFetch) \<and>
           messages s1 = messages s @
             [\<lparr>role = User, content = JStr inp, timestamp = Some (now e), isCommand = None,
               id = Some (generateMessageId e), isPinned = None\<rparr>] \<and>
           isLoading s1 \<and> effects s1 = effects s @ [NetworkRequest k inp]"
    by (simp add: submit_message [OF a] Let_def userMessage_def)
next
  show "messages (handleSubmit_settle f Rejected u) = messages u @
       [\<lparr>role = Assistant,
         content = JStr (asc ''Sorry, I encountered an error. Please try again.''),
         timestamp = Some (now f), isCommand = None, id = Some (generateMessageId f),
         isPinned = None\<rparr>]"
    by (simp add: handleSubmit_settle_def state_ops assistantMessage_def apologyText_def)
next
  assume "\<not> response_ok status"
  then show "messages (handleSubmit_settle f (Response status body js) u) = messages u @
          [\<lparr>role = Assistant,
            content = JStr (asc ''Sorry, I encountered an error. Please try again.''),
            timestamp = Some (now f), isCommand = None, id = Some (generateMessageId f),
            isPinned = None\<rparr>]"
    by (simp add: handleSubmit_settle_def state_ops assistantMessage_def apologyText_def)
next
  show "isLoading (handleSubmit_settle f out u) = False"
    by (simp add: handleSubmit_settle_def state_ops split: sum.splits)
qed

text \<open>
  The theorem for the message \<open>hello\<close> and a response of status 500: the chat of two
  messages gets the apology as its third, and \<open>isLoading\<close> is false.
\<close>

theorem remote_failure_witness:
  "input (mountState\<lparr>input := Some (asc ''hello'')\<rparr>) = Some (asc ''hello'') \<and>
   trim (asc ''hello'') \<noteq> [] \<and> \<not> startsWith (asc ''hello'') [47] \<and>
   apiKey exampleEnv = Some (asc ''secret'') \<and> asc ''secret'' \<noteq> [] \<and>
   \<not> response_ok 500 \<and>
   messages (handleSubmit_settle exampleEnv (Response 500 (Some (asc ''down'')) None) chatState)
     = [firstMessage, secondMessage,
        \<lparr>role = Assistant,
         content = JStr (asc ''Sorry, I encountered an error. Please try again.''),
         timestamp = Some 1000, isCommand = None, id = Some (asc ''m1''),
         isPinned = None\<rparr>] \<and>
   isLoading (handleSubmit_settle exampleEnv (Response 500 (Some (asc ''down'')) None) chatState)
     = False"
proof -
  have i: "input (mountState\<lparr>input := Some (asc ''hello'')\<rparr>) = Some (asc ''hello'')"
    by simp
  have t: "trim (asc ''hello'') \<noteq> []" by (rule trim_hello_ne)
  have k: "apiKey exampleEnv = Some (asc ''secret'')" by (simp add: exampleEnv_def)
  have ne: "asc ''secret'' \<noteq> []" by (simp add: asc_simps)
  have bad: "\<not> response_ok 500" by (simp add: response_ok_def)
  have c: "messages chatState = [firstMessage, secondMessage]"
    "now exampleEnv = 1000" "generateMessageId exampleEnv = asc ''m1''"
    by (simp_all add: chatState_def exampleEnv_def)
  note inst = remote_failure [OF i t startsWith_hello k ne, where f = "exampleEnv"
      and u = "chatState" and status = "500" and body = "Some (asc ''down'')" and js = "None"
      and out = "Response 500 (Some (asc ''down'')) None"]
  from inst bad
  have "messages (handleSubmit_settle exampleEnv (Response 500 (Some (asc ''down'')) None) chatState)
     = messages chatState @
        [\<lparr>role = Assistant,
         content = JStr (asc ''Sorry, I encountered an error. Please try again.''),
         timestamp = Some (now exampleEnv), isCommand = None,
         id = Some (generateMessageId exampleEnv), isPinned = None\<rparr>]"
    by blast
  then have "messages (handleSubmit_settle exampleEnv (Response 500 (Some (asc ''down'')) None) chatState)
     = [firstMessage, secondMessage,
        \<lparr>role = Assistant,
         content = JStr (asc ''Sorry, I encountered an error. Please try again.''),
         timestamp = Some 1000, isCommand = None, id = Some (asc ''m1''),
         isPinned = None\<rparr>]"
    by (simp only: c append.simps)
  moreover from inst
  have "isLoading (handleSubmit_settle exampleEnv (Response 500 (Some (asc ''down'')) None) chatState)
     = False"
    by blast
  ultimately show ?thesis using i t startsWith_hello k ne bad by blast
qed

text \<open>
  Claim C7. With no key configured, submitting a non-command, non-empty message appends
  the user message, sets \<open>isLoading\<close> and arms a timer of 1000 ms; it issues no
  network request. The callback of the timer appends exactly one message, whose role
  is \<open>assistant\<close> and whose content is the text
  \<open>API key not found. Set VITE_GEMINI_API_KEY in your .env file.\<close>, clears
  \<open>isLoading\<close> and changes nothing else, so it issues no request either.
\<close>

theorem missing_key:
  "input s = Some inp \<Longrightarrow> trim inp \<noteq> [] \<Longrightarrow> \<not> startsWith inp [47] \<Longrightarrow>
   apiKey e = None \<Longrightarrow>
     (\<exists>s1. handleSubmit e s = Inr (s1, KeyMissingTimer) \<and>
           messages s1 = messages s @
             [\<lparr>role = User, content = JStr inp, timestamp = Some (now e), isCommand = None,
               id = Some (generateMessageId e), isPinned = None\<rparr>] \<and>
           isLoading s1 \<and> effects s1 = effects s @ [SetTimeout 1000] \<and>
           networkRequests s1 = networkRequests s) \<and>
     keyMissingCallback f u =
       u\<lparr>messages := messages u @
            [\<lparr>role = Assistant,
              content =
                JStr (asc ''API key not found. Set VITE_GEMINI_API_KEY in your .env file.''),
              timestamp = Some (now f), isCommand = None, id = Some (generateMessageId f),
              isPinned = None\<rparr>],
          isLoading := False\<rparr>"
proof (intro conjI)
  assume a: "input s = Some inp" "trim inp \<noteq> []" "\<not> startsWith inp [47]"
    and k: "apiKey e = None"
  from k have "falsy_string (apiKey e)" by (simp add: falsy_string_def)
  then show "\<exists>s1. handleSubmit e s = Inr (s1, KeyMissingTimer) \<and>
           messages s1 = messages s @
             [\<lparr>role = User, content = JStr inp, timestamp = Some (now e), isCommand = None,
               id = Some (generateMessageId e), isPinned = None\<rparr>] \<and>
           isLoading s1 \<and> effects s1 = effects s @ [SetTimeout 1000] \<and>
           networkRequests s1 = networkRequests s"
    by (simp add: submit_message [OF a] Let_def networkRequests_def userMessage_def)
next
  show "keyMissingCallback f u =
       u\<lparr>messages := messages u @
            [\<lparr>role = Assistant,
              content =
                JStr (asc ''API key not found. Set VITE_GEMINI_API_KEY in your .env file.''),
              timestamp = Some (now f), isCommand = None, id = Some (generateMessageId f),
              isPinned = None\<rparr>],
          isLoading := False\<rparr>"
    by (simp add: keyMissingCallback_def state_ops assistantMessage_def keyMissingText_def
        asc_def)
qed

text \<open>
  The theorem for the message \<open>hello\<close> at mount: the submission leaves the user
  message, the history entry and the armed timer, and the callback adds the notice.
\<close>

theorem missing_key_witness:
  "input (mountState\<lparr>input := Some (asc ''hello'')\<rparr>) = Some (asc ''hello'') \<and>
   trim (asc ''hello'') \<noteq> [] \<and> \<not> startsWith (asc ''hello'') [47] \<and>
   apiKey noKeyEnv = None \<and>
   handleSubmit noKeyEnv (mountState\<lparr>input := Some (asc ''hello'')\<rparr>) =
     Inr (mountState\<lparr>messages :=
                      [\<lparr>role = User, content = JStr (asc ''hello''), timestamp = Some 1000,
                        isCommand = None, id = Some (asc ''m1''), isPinned = None\<rparr>],
                     inputHistory := [asc ''hello''], isLoading := True,
                     effects := [SetTimeout 1000]\<rparr>, KeyMissingTimer) \<and>
   map content (messages (keyMissingCallback noKeyEnv
              (mountState\<lparr>messages := [firstMessage], isLoading := True\<rparr>)))
     = [JStr (asc ''hello''),
        JStr (asc ''API key not found. Set VITE_GEMINI_API_KEY in your .env file.'')] \<and>
   map role (messages (keyMissingCallback noKeyEnv
              (mountState\<lparr>messages := [firstMessage], isLoading := True\<rparr>)))
     = [User, Assistant]"
proof -
  let ?s = "mountState\<lparr>input := Some (asc ''hello'')\<rparr>"
  let ?u = "mountState\<lparr>messages := [firstMessage], isLoading := True\<rparr>"
  have i: "input ?s = Some (asc ''hello'')" by simp
  have t: "trim (asc ''hello'') \<noteq> []" by (rule trim_hello_ne)
  have k: "apiKey noKeyEnv = None" by (simp add: noKeyEnv_def)
  note inst = missing_key [OF i t startsWith_hello k, where f = "noKeyEnv" and u = "?u"]
  have run: "handleSubmit noKeyEnv ?s =
     Inr (mountState\<lparr>messages :=
                      [\<lparr>role = User, content = JStr (asc ''hello''), timestamp = Some 1000,
                        isCommand = None, id = Some (asc ''m1''), isPinned = None\<rparr>],
                     inputHistory := [asc ''hello''], isLoading := True,
                     effects := [SetTimeout 1000]\<rparr>, KeyMissingTimer)"
    unfolding submit_message [OF i t startsWith_hello]
    by (simp add: k falsy_string_def trim_hello js_index_def mountState_def userMessage_def
        noKeyEnv_def exampleEnv_def)
  from inst have cb: "keyMissingCallback noKeyEnv ?u =
       ?u\<lparr>messages := messages ?u @
            [\<lparr>role = Assistant,
              content =
                JStr (asc ''API key not found. Set VITE_GEMINI_API_KEY in your .env file.''),
              timestamp = Some (now noKeyEnv), isCommand = None,
              id = Some (generateMessageId noKeyEnv), isPinned = None\<rparr>],
          isLoading := False\<rparr>"
    by blast
  have "map content (messages (keyMissingCallback noKeyEnv ?u))
     = [JStr (asc ''hello''),
        JStr (asc ''API key not found. Set VITE_GEMINI_API_KEY in your .env file.'')]"
    unfolding cb by (simp add: firstMessage_def userMessage_def asc_def)
  moreover have "map role (messages (keyMissingCallback noKeyEnv ?u)) = [User, Assistant]"
    unfolding cb by (simp add: firstMessage_def userMessage_def)
  ultimately show ?thesis using i t startsWith_hello k run by blast
qed

subsection \<open>The text of a completion\<close>

lemma decimal_0: "decimal 0 = [48]"
  by (simp add: decimal.simps)

lemma getProp_Name:
  "getProp v (Name k) = (case field k v of Some x \<Rightarrow> x | None \<Rightarrow> JUndefined)"
  by (cases v) simp_all

lemma optChain_Name:
  "optChain (case x of Some v \<Rightarrow> v | None \<Rightarrow> JUndefined) (Name k) =
     (case Option.bind x (field k) of Some v \<Rightarrow> v | None \<Rightarrow> JUndefined)"
  by (cases x) (simp_all add: optChain_def nullish_def getProp_Name)

lemma getProp_Index0:
  "getProp v (Index 0) = (case firstElement v of Some x \<Rightarrow> x | None \<Rightarrow> JUndefined)"
proof (cases v)
  case (JArr xs)
  then show ?thesis by (cases xs) simp_all
next
  case (JStr cs)
  then show ?thesis by (cases cs) simp_all
qed (simp_all add: decimal_0)

lemma optChain_Index0:
  "optChain (case x of Some v \<Rightarrow> v | None \<Rightarrow> JUndefined) (Index 0) =
     (case Option.bind x firstElement of Some v \<Rightarrow> v | None \<Rightarrow> JUndefined)"
  by (cases x) (simp_all add: optChain_def nullish_def getProp_Index0)

text \<open>The optional chain of the handler reads the field that the specification names.\<close>

lemma firstText_firstGeneratedText:
  "\<not> nullish data \<Longrightarrow>
     firstText data = Inr (case firstGeneratedText data of Some t \<Rightarrow> t | None \<Rightarrow> JUndefined)"
  by (simp add: firstText_def firstGeneratedText_def getProp_Name optChain_Name optChain_Index0)

lemma firstGeneratedText_textPayload: "firstGeneratedText (textPayload t) = Some t"
  by (simp add: firstGeneratedText_def textPayload_def asc_simps)

lemma firstGeneratedText_emptyPayload: "firstGeneratedText emptyPayload = None"
  by (simp add: firstGeneratedText_def emptyPayload_def asc_simps)

text \<open>
  Claim C9, as the claim states it, fails: for a payload whose first text field is the
  empty string the field is there, and the one message appended has the placeholder
  for its content, not the field.
\<close>

theorem completion_text_counterexample:
  "response_ok 200 \<and>
   firstGeneratedText (textPayload (JStr [])) = Some (JStr []) \<and>
   map content (messages (handleSubmit_settle exampleEnv
                  (Response 200 None (Some (textPayload (JStr [])))) mountState))
     = [JStr (asc ''No response from model.'')] \<and>
   JStr (asc ''No response from model.'') \<noteq> JStr []"
  by (simp add: response_ok_def firstGeneratedText_def textPayload_def firstText_def
      nullish_def optChain_def handleSubmit_settle_def generatedText_def state_ops
      mountState_def assistantMessage_def noResponseText_def asc_simps)

text \<open>
  Claim C9, amended. For every 2xx response whose payload parses to a value other than
  \<open>null\<close>, settling appends exactly one message, of role \<open>assistant\<close>, and clears
  \<open>isLoading\<close>. The content of that message equals the first generated text field
  of the payload (\<open>candidates[0].content.parts[0].text\<close>) when the field is there and
  truthy, which for a string means non-empty; it equals the literal
  \<open>No response from model.\<close> when the field is structurally absent, and also when
  it is there and falsy, as the empty string is.
\<close>

theorem completion_text:
  "response_ok status \<Longrightarrow> \<not> nullish data \<Longrightarrow>
     (\<exists>m. handleSubmit_settle e (Response status body (Some data)) s =
            s\<lparr>messages := messages s @ [m], isLoading := False\<rparr> \<and>
          role m = Assistant \<and>
          content m =
            (case firstGeneratedText data of
               None \<Rightarrow> JStr (asc ''No response from model.'')
             | Some t \<Rightarrow> if truthy t then t else JStr (asc ''No response from model.''))) \<and>
     truthy (JStr cs) = (cs \<noteq> []) \<and> \<not> truthy JUndefined \<and> \<not> truthy JNull"
proof (intro conjI)
  assume ok: "response_ok status" and nn: "\<not> nullish data"
  let ?c = "case firstGeneratedText data of
               None \<Rightarrow> JStr (asc ''No response from model.'')
             | Some t \<Rightarrow> if truthy t then t else JStr (asc ''No response from model.'')"
  have "generatedText data = Inr ?c"
    by (simp add: generatedText_def firstText_firstGeneratedText [OF nn] noResponseText_def
        split: option.splits)
  with ok have "handleSubmit_settle e (Response status body (Some data)) s =
      s\<lparr>messages := messages s @ [assistantMessage e ?c], isLoading := False\<rparr>"
    by (simp add: handleSubmit_settle_def state_ops)
  moreover have "role (assistantMessage e ?c) = Assistant"
    "content (assistantMessage e ?c) = ?c"
    by (simp_all add: assistantMessage_def)
  ultimately show "\<exists>m. handleSubmit_settle e (Response status body (Some data)) s =
            s\<lparr>messages := messages s @ [m], isLoading := False\<rparr> \<and>
          role m = Assistant \<and> content m = ?c"
    by blast
next
  show "truthy (JStr cs) = (cs \<noteq> [])" by simp
next
  show "\<not> truthy JUndefined" by simp
next
  show "\<not> truthy JNull" by simp
qed

text \<open>
  The theorem at a payload whose first text is \<open>Hi\<close> and at one with no candidates:
  the contents appended are \<open>Hi\<close> and the placeholder.
\<close>

theorem completion_text_witness:
  "response_ok 200 \<and> \<not> nullish (textPayload (JStr (asc ''Hi''))) \<and> \<not> nullish emptyPayload \<and>
   firstGeneratedText (textPayload (JStr (asc ''Hi''))) = Some (JStr (asc ''Hi'')) \<and>
   firstGeneratedText emptyPayload = None \<and>
   map content (messages (handleSubmit_settle exampleEnv
               (Response 200 None (Some (textPayload (JStr (asc ''Hi''))))) mountState))
     = [JStr (asc ''Hi'')] \<and>
   map role (messages (handleSubmit_settle exampleEnv
               (Response 200 None (Some (textPayload (JStr (asc ''Hi''))))) mountState))
     = [Assistant] \<and>
   map content (messages (handleSubmit_settle exampleEnv
               (Response 200 None (Some emptyPayload)) mountState))
     = [JStr (asc ''No response from model.'')]"
proof -
  have ok: "response_ok 200" by (simp add: response_ok_def)
  have n1: "\<not> nullish (textPayload (JStr (asc ''Hi'')))"
    by (simp add: nullish_def textPayload_def)
  have n2: "\<not> nullish emptyPayload" by (simp add: nullish_def emptyPayload_def)
  note f1 = firstGeneratedText_textPayload [of "JStr (asc ''Hi'')"]
  note f2 = firstGeneratedText_emptyPayload
  have hi: "truthy (JStr (asc ''Hi''))" by (simp add: asc_simps)
  have m: "messages mountState = []" by (simp add: mountState_def)
  from completion_text [OF ok n1, where e = exampleEnv and body = None and s = mountState]
  obtain m1 where "handleSubmit_settle exampleEnv
               (Response 200 None (Some (textPayload (JStr (asc ''Hi''))))) mountState
       = mountState\<lparr>messages := messages mountState @ [m1], isLoading := False\<rparr>"
    and "role m1 = Assistant" and "content m1 = JStr (asc ''Hi'')"
    unfolding f1 using hi by auto
  then have a: "map content (messages (handleSubmit_settle exampleEnv
               (Response 200 None (Some (textPayload (JStr (asc ''Hi''))))) mountState))
     = [JStr (asc ''Hi'')]"
    and b: "map role (messages (handleSubmit_settle exampleEnv
               (Response 200 None (Some (textPayload (JStr (asc ''Hi''))))) mountState))
     = [Assistant]"
    by (simp_all add: m)
  from completion_text [OF ok n2, where e = exampleEnv and body = None and s = mountState]
  obtain m2 where "handleSubmit_settle exampleEnv
               (Response 200 None (Some emptyPayload)) mountState
       = mountState\<lparr>messages := messages mountState @ [m2], isLoading := False\<rparr>"
    and "content m2 = JStr (asc ''No response from model.'')"
    unfolding f2 by auto
  then have c: "map content (messages (handleSubmit_settle exampleEnv
               (Response 200 None (Some emptyPayload)) mountState))
     = [JStr (asc ''No response from model.'')]"
    by (simp add: m)
  have direct: "map content (messages (handleSubmit_settle exampleEnv
               (Response 200 None (Some (textPayload (JStr (asc ''Hi''))))) mountState))
     = [JStr (asc ''Hi'')]"
    by (simp add: response_ok_def textPayload_def firstText_def nullish_def optChain_def
        handleSubmit_settle_def generatedText_def state_ops mountState_def
        assistantMessage_def asc_simps)
  from ok n1 n2 f1 f2 a b c direct show ?thesis by blast
qed

end
